theory Spec2Isabelle
  imports Main
begin

section \<open>Server: documents, store and HTTP messages\<close>

text \<open>
  The backend keeps three collections of documents. A collection is the list of its
  documents in insertion order; the document store gives every document of a collection a
  different \<^verbatim>\<open>_id\<close>. Identifiers are the strings the routes compare
  (\<^verbatim>\<open>post.author.toString() !== req.user.id\<close>). The schemas under \<^verbatim>\<open>models/\<close> are not
  among the source files: the fields below are the ones the routes and the views read, and
  the store operations are taken to succeed (no schema validator rejects a write, no
  identifier fails to parse).
\<close>

type_synonym oid = string

record user_doc =
  uid :: oid
  name :: string
  email :: string
  avatar :: string
  role :: string

record comment =
  c_content :: string
  c_user :: oid

record post =
  pid :: oid
  title :: string
  content :: string
  tags :: "string list"
  category :: oid
  author :: oid
  viewCount :: int
  comments :: "comment list"

record category_doc =
  cid :: oid
  cname :: string
  slug :: string
  description :: string
  postCount :: int

record db =
  posts :: "post list"
  categories :: "category_doc list"
  users :: "user_doc list"

text \<open>
  A request: \<open>session\<close> is \<^verbatim>\<open>req.user\<close>, the identity the caller presented (\<open>None\<close> when
  there is no valid one), \<open>params_id\<close> is \<^verbatim>\<open>req.params.id\<close>, \<open>body\<close> is \<^verbatim>\<open>req.body\<close> with
  the fields the routes read (\<open>None\<close> for a field that is absent), \<open>query_q\<close> is
  \<^verbatim>\<open>req.query.q\<close>.
\<close>

record req_body =
  b_title :: "string option"
  b_content :: "string option"
  b_category :: "string option"
  b_tags :: "string list option"

record request =
  session :: "user_doc option"
  params_id :: oid
  body :: req_body
  query_q :: "string option"

text \<open>
  A populated reference is the referenced document cut down to \<^verbatim>\<open>_id\<close> and the two
  selected fields, or \<open>None\<close> (\<^verbatim>\<open>null\<close>) when no such document is stored.
\<close>

type_synonym doc_ref = "oid \<times> string \<times> string"

record populated_comment =
  pc_content :: string
  pc_user :: "doc_ref option"

record populated_post =
  doc :: post
  author_ref :: "doc_ref option"
  category_ref :: "doc_ref option"

text \<open>A single post as \<^verbatim>\<open>GET /:id\<close> answers it: the author with three selected fields.\<close>

record post_detail =
  pd_doc :: post
  pd_author :: "(oid \<times> string \<times> string \<times> string) option"
  pd_category :: "doc_ref option"
  pd_comments :: "populated_comment list"

text \<open>
  The JSON envelope \<^verbatim>\<open>{success, data | count, data | error | errors}\<close> with its HTTP
  status. A handler either responds or hands an exception to \<^verbatim>\<open>next(err)\<close>: a reply is
  \<open>Inr\<close> of the response or \<open>Inl\<close> of the exception's name.
\<close>

datatype json_data =
    PostData post
  | NullData
  | EmptyData
  | CommentData populated_comment
  | PostDetailData post_detail
  | PostsData nat "populated_post list"

datatype json_body = Data json_data | Error string | Errors "string list"

record response =
  status :: nat
  success :: bool
  json :: json_body

type_synonym reply = "string + response"

definition fail :: "nat \<Rightarrow> string \<Rightarrow> reply" where
  "fail code msg = Inr \<lparr>status = code, success = False, json = Error msg\<rparr>"

definition ok :: "nat \<Rightarrow> json_data \<Rightarrow> reply" where
  "ok code d = Inr \<lparr>status = code, success = True, json = Data d\<rparr>"

subsection \<open>Numbers\<close>

text \<open>
  \<^verbatim>\<open>postCount\<close> is a JavaScript number, a double. The model keeps it as the integer it
  holds and writes the rounding of the double arithmetic out: a sum or difference is first
  taken exactly and then rounded to the nearest integer with 53 significant bits, a tie
  going to the one whose last kept bit is 0. Up to \<open>2 ^ 53\<close> in magnitude nothing is
  rounded. Values that are not integers, \<^verbatim>\<open>NaN\<close> and the infinities are left out.
  \<open>exponent m\<close> is the number of low bits that \<open>m\<close> loses.
\<close>

function exponent :: "int \<Rightarrow> nat" where
  "exponent m = (if m < 2 ^ 53 then 0 else Suc (exponent (m div 2)))"
  by pat_completeness auto
termination
  by (relation "measure nat") auto

declare exponent.simps [simp del]

definition round_half_even :: "nat \<Rightarrow> int \<Rightarrow> int" where
  "round_half_even e m =
     (let q = m div 2 ^ e; r = m mod 2 ^ e in
      if 2 ^ e < 2 * r \<or> (2 * r = 2 ^ e \<and> odd q) then (q + 1) * 2 ^ e else q * 2 ^ e)"

definition to_double :: "int \<Rightarrow> int" where
  "to_double n = sgn n * round_half_even (exponent \<bar>n\<bar>) \<bar>n\<bar>"

definition js_add :: "int \<Rightarrow> int \<Rightarrow> int" where
  "js_add a b = to_double (a + b)"

definition js_sub :: "int \<Rightarrow> int \<Rightarrow> int" where
  "js_sub a b = to_double (a - b)"

subsection \<open>Store operations\<close>

definition Post_findById :: "post list \<Rightarrow> oid \<Rightarrow> post option" where
  "Post_findById ps i = find (\<lambda>p. pid p = i) ps"

definition Category_findById :: "category_doc list \<Rightarrow> oid \<Rightarrow> category_doc option" where
  "Category_findById cs i = find (\<lambda>c. cid c = i) cs"

definition User_findById :: "user_doc list \<Rightarrow> oid \<Rightarrow> user_doc option" where
  "User_findById us i = find (\<lambda>u. uid u = i) us"

text \<open>\<^verbatim>\<open>doc.save()\<close> writes a loaded document back under its \<^verbatim>\<open>_id\<close>.\<close>

definition Post_save :: "post list \<Rightarrow> post \<Rightarrow> post list" where
  "Post_save ps p = map (\<lambda>x. if pid x = pid p then p else x) ps"

definition Category_save :: "category_doc list \<Rightarrow> category_doc \<Rightarrow> category_doc list" where
  "Category_save cs c = map (\<lambda>x. if cid x = cid c then c else x) cs"

text \<open>\<^verbatim>\<open>doc.remove()\<close> deletes the document with that \<^verbatim>\<open>_id\<close>.\<close>

definition Post_remove :: "post list \<Rightarrow> post \<Rightarrow> post list" where
  "Post_remove ps p = filter (\<lambda>x. pid x \<noteq> pid p) ps"

definition Category_remove :: "category_doc list \<Rightarrow> category_doc \<Rightarrow> category_doc list" where
  "Category_remove cs c = filter (\<lambda>x. cid x \<noteq> cid c) cs"

text \<open>Reading a body field that the validators have found present.\<close>

definition field :: "string option \<Rightarrow> string" where
  "field v = (case v of None \<Rightarrow> [] | Some s \<Rightarrow> s)"

text \<open>
  \<^verbatim>\<open>Post.create({...req.body, author: req.user.id})\<close>: the new document takes the body's
  fields, the caller as author, the identifier the store generates, and the empty defaults
  for what the body leaves out.
\<close>

definition Post_create :: "oid \<Rightarrow> req_body \<Rightarrow> oid \<Rightarrow> post" where
  "Post_create new_id b a =
     \<lparr>pid = new_id, title = field (b_title b), content = field (b_content b),
      tags = (case b_tags b of None \<Rightarrow> [] | Some ts \<Rightarrow> ts),
      category = field (b_category b), author = a, viewCount = 0, comments = []\<rparr>"

text \<open>
  \<^verbatim>\<open>Post.findByIdAndUpdate(id, req.body, {new: true, ...})\<close>: the fields present in the
  body overwrite the document's; the result is the document after the update, or \<^verbatim>\<open>null\<close>.
\<close>

definition apply_body :: "req_body \<Rightarrow> post \<Rightarrow> post" where
  "apply_body b p =
     p\<lparr>title := (case b_title b of None \<Rightarrow> title p | Some v \<Rightarrow> v),
       content := (case b_content b of None \<Rightarrow> content p | Some v \<Rightarrow> v),
       category := (case b_category b of None \<Rightarrow> category p | Some v \<Rightarrow> v),
       tags := (case b_tags b of None \<Rightarrow> tags p | Some v \<Rightarrow> v)\<rparr>"

definition Post_findByIdAndUpdate :: "post list \<Rightarrow> oid \<Rightarrow> req_body \<Rightarrow> post option \<times> post list" where
  "Post_findByIdAndUpdate ps i b =
     (let ps' = map (\<lambda>x. if pid x = i then apply_body b x else x) ps
      in (Post_findById ps' i, ps'))"

subsection \<open>Populate\<close>

definition populate_user :: "user_doc list \<Rightarrow> oid \<Rightarrow> (user_doc \<Rightarrow> string) \<Rightarrow> doc_ref option" where
  "populate_user us i sel = map_option (\<lambda>u. (uid u, name u, sel u)) (User_findById us i)"

definition populate_category :: "category_doc list \<Rightarrow> oid \<Rightarrow> doc_ref option" where
  "populate_category cs i = map_option (\<lambda>c. (cid c, cname c, slug c)) (Category_findById cs i)"

text \<open>\<^verbatim>\<open>populate({path: 'comments', populate: {path: 'user', select: 'name avatar'}})\<close>\<close>

definition populate_comment :: "user_doc list \<Rightarrow> comment \<Rightarrow> populated_comment" where
  "populate_comment us c =
     \<lparr>pc_content = c_content c, pc_user = populate_user us (c_user c) avatar\<rparr>"

text \<open>\<^verbatim>\<open>.populate('author', 'name email').populate('category', 'name slug')\<close>\<close>

definition populate_post :: "db \<Rightarrow> post \<Rightarrow> populated_post" where
  "populate_post d p =
     \<lparr>doc = p, author_ref = populate_user (users d) (author p) email,
      category_ref = populate_category (categories d) (category p)\<rparr>"

text \<open>
  \<^verbatim>\<open>.populate('author', 'name email avatar').populate('category', 'name slug')\<close> and the
  comments' users.
\<close>

definition populate_detail :: "db \<Rightarrow> post \<Rightarrow> post_detail" where
  "populate_detail d p =
     \<lparr>pd_doc = p,
      pd_author = map_option (\<lambda>u. (uid u, name u, email u, avatar u))
                    (User_findById (users d) (author p)),
      pd_category = populate_category (categories d) (category p),
      pd_comments = map (populate_comment (users d)) (comments p)\<rparr>"

subsection \<open>The authorization gate (middleware/auth)\<close>

text \<open>
  Modelled from the spec: \<^verbatim>\<open>protect\<close> and \<^verbatim>\<open>authorize\<close> of \<^verbatim>\<open>middleware/auth\<close>, which the
  routes call and which is not among the source files. The spec (4.3, 7): the caller must
  present a valid session identity (\<^verbatim>\<open>protect\<close>), and for an admin-restricted operation
  the caller's role must equal the required one (\<^verbatim>\<open>authorize\<close>); they fail with
  Unauthenticated and Forbidden, both HTTP 401.
\<close>

definition protect :: "request \<Rightarrow> reply + user_doc" where
  "protect req =
     (case session req of
        None \<Rightarrow> Inl (fail 401 ''Unauthenticated'')
      | Some u \<Rightarrow> Inr u)"

definition authorize :: "string \<Rightarrow> user_doc \<Rightarrow> reply option" where
  "authorize r u = (if role u = r then None else Some (fail 401 ''Forbidden''))"

text \<open>
  A route with the middleware \<^verbatim>\<open>[protect, authorize('admin')]\<close>, or \<^verbatim>\<open>[protect]\<close> alone,
  before its handler: the first middleware that fails answers, and the store is as it was.
\<close>

definition admin_route :: "(db \<Rightarrow> request \<Rightarrow> user_doc \<Rightarrow> reply \<times> db) \<Rightarrow> db \<Rightarrow> request \<Rightarrow> reply \<times> db" where
  "admin_route handler d req =
     (case protect req of
        Inl r \<Rightarrow> (r, d)
      | Inr u \<Rightarrow>
          (case authorize ''admin'' u of
             Some r \<Rightarrow> (r, d)
           | None \<Rightarrow> handler d req u))"

definition protected_route :: "(db \<Rightarrow> request \<Rightarrow> user_doc \<Rightarrow> reply \<times> db) \<Rightarrow> db \<Rightarrow> request \<Rightarrow> reply \<times> db" where
  "protected_route handler d req =
     (case protect req of
        Inl r \<Rightarrow> (r, d)
      | Inr u \<Rightarrow> handler d req u)"

text \<open>The caller presents an identity whose role is \<^verbatim>\<open>admin\<close>.\<close>

definition is_admin :: "request \<Rightarrow> bool" where
  "is_admin req = (case session req of None \<Rightarrow> False | Some u \<Rightarrow> role u = ''admin'')"

subsection \<open>Validators (express-validator)\<close>

text \<open>\<^verbatim>\<open>body(f).notEmpty()\<close>: an absent field reads as the empty string.\<close>

definition notEmpty :: "string option \<Rightarrow> bool" where
  "notEmpty v = (field v \<noteq> [])"

definition check :: "bool \<Rightarrow> string \<Rightarrow> string list" where
  "check passed msg = (if passed then [] else [msg])"

definition validate_post :: "req_body \<Rightarrow> string list" where
  "validate_post b =
     check (notEmpty (b_title b)) ''Please provide a title''
     @ check (notEmpty (b_content b)) ''Please provide content''
     @ check (notEmpty (b_category b)) ''Please provide a category''"

definition validate_comment :: "req_body \<Rightarrow> string list" where
  "validate_comment b = check (notEmpty (b_content b)) ''Please provide comment content''"

section \<open>Server: the post routes (routes/posts.js)\<close>

subsection \<open>POST /api/posts\<close>

text \<open>
  The handler after the gate: validation errors answer 400; a category that is not stored
  answers 400 with \<^verbatim>\<open>'Category not found'\<close>; otherwise the post is created with the caller
  as author, the loaded category's \<^verbatim>\<open>postCount\<close> has 1 added (\<^verbatim>\<open>+= 1\<close>) and is saved, and the
  answer is 201 with the post. \<open>new_id\<close> is the identifier the store gives the new post.
\<close>

definition posts_create_handler :: "oid \<Rightarrow> db \<Rightarrow> request \<Rightarrow> user_doc \<Rightarrow> reply \<times> db" where
  "posts_create_handler new_id d req u =
     (let errors = validate_post (body req) in
      if errors \<noteq> [] then
        (Inr \<lparr>status = 400, success = False, json = Errors errors\<rparr>, d)
      else
        (case Category_findById (categories d) (field (b_category (body req))) of
           None \<Rightarrow> (fail 400 ''Category not found'', d)
         | Some cat \<Rightarrow>
             (let post = Post_create new_id (body req) (uid u);
                  d1 = d\<lparr>posts := posts d @ [post]\<rparr>;
                  cat' = cat\<lparr>postCount := js_add (postCount cat) 1\<rparr>;
                  d2 = d1\<lparr>categories := Category_save (categories d1) cat'\<rparr>
              in (ok 201 (PostData post), d2))))"

definition posts_create_route :: "oid \<Rightarrow> db \<Rightarrow> request \<Rightarrow> reply \<times> db" where
  "posts_create_route new_id = admin_route (posts_create_handler new_id)"

subsection \<open>PUT /api/posts/:id\<close>

definition posts_update_handler :: "db \<Rightarrow> request \<Rightarrow> user_doc \<Rightarrow> reply \<times> db" where
  "posts_update_handler d req u =
     (case Post_findById (posts d) (params_id req) of
        None \<Rightarrow> (fail 404 ''Post not found'', d)
      | Some post \<Rightarrow>
          if author post \<noteq> uid u \<and> role u \<noteq> ''admin'' then
            (fail 401 ''Not authorized to update this post'', d)
          else
            (case Post_findByIdAndUpdate (posts d) (params_id req) (body req) of
               (post', ps') \<Rightarrow>
                 (ok 200 (case post' of None \<Rightarrow> NullData | Some p \<Rightarrow> PostData p),
                  d\<lparr>posts := ps'\<rparr>)))"

definition posts_update_route :: "db \<Rightarrow> request \<Rightarrow> reply \<times> db" where
  "posts_update_route = admin_route posts_update_handler"

subsection \<open>DELETE /api/posts/:id\<close>

text \<open>
  After the removal the handler loads the post's category; when it is stored, its
  \<^verbatim>\<open>postCount\<close> has 1 subtracted (\<^verbatim>\<open>-= 1\<close>), is reset to 0 when that went below 0, and is
  saved.
\<close>

definition posts_delete_handler :: "db \<Rightarrow> request \<Rightarrow> user_doc \<Rightarrow> reply \<times> db" where
  "posts_delete_handler d req u =
     (case Post_findById (posts d) (params_id req) of
        None \<Rightarrow> (fail 404 ''Post not found'', d)
      | Some post \<Rightarrow>
          if author post \<noteq> uid u \<and> role u \<noteq> ''admin'' then
            (fail 401 ''Not authorized to delete this post'', d)
          else
            (let d1 = d\<lparr>posts := Post_remove (posts d) post\<rparr>;
                 d2 = (case Category_findById (categories d1) (category post) of
                         None \<Rightarrow> d1
                       | Some cat \<Rightarrow>
                           (let c1 = cat\<lparr>postCount := js_sub (postCount cat) 1\<rparr>;
                                c2 = (if postCount c1 < 0 then c1\<lparr>postCount := 0\<rparr> else c1)
                            in d1\<lparr>categories := Category_save (categories d1) c2\<rparr>))
             in (ok 200 EmptyData, d2)))"

definition posts_delete_route :: "db \<Rightarrow> request \<Rightarrow> reply \<times> db" where
  "posts_delete_route = admin_route posts_delete_handler"

subsection \<open>POST /api/posts/:id/comments\<close>

text \<open>
  The handler pushes \<^verbatim>\<open>{content, user: req.user.id}\<close> onto the post's comments, saves the
  post, loads it again with the comments' users populated and answers with the last
  comment of the loaded post. Reading \<^verbatim>\<open>comments\<close> of a post that is not found throws,
  which the \<^verbatim>\<open>catch\<close> hands to \<^verbatim>\<open>next\<close>. \<open>last_element xs\<close> is
  \<^verbatim>\<open>xs[xs.length - 1]\<close>: \<^verbatim>\<open>undefined\<close> on an empty array, which JSON leaves out.
\<close>

definition last_element :: "'a list \<Rightarrow> 'a option" where
  "last_element xs = (if xs = [] then None else Some (last xs))"

definition posts_comment_handler :: "db \<Rightarrow> request \<Rightarrow> user_doc \<Rightarrow> reply \<times> db" where
  "posts_comment_handler d req u =
     (let errors = validate_comment (body req) in
      if errors \<noteq> [] then
        (Inr \<lparr>status = 400, success = False, json = Errors errors\<rparr>, d)
      else
        (case Post_findById (posts d) (params_id req) of
           None \<Rightarrow> (fail 404 ''Post not found'', d)
         | Some post \<Rightarrow>
             (let post1 = post\<lparr>comments := comments post
                            @ [\<lparr>c_content = field (b_content (body req)), c_user = uid u\<rparr>]\<rparr>;
                  d1 = d\<lparr>posts := Post_save (posts d) post1\<rparr>
              in (case Post_findById (posts d1) (pid post1) of
                    None \<Rightarrow> (Inl ''TypeError'', d1)
                  | Some populatedPost \<Rightarrow>
                      (case last_element
                              (map (populate_comment (users d1)) (comments populatedPost)) of
                         None \<Rightarrow> (ok 201 NullData, d1)
                       | Some c \<Rightarrow> (ok 201 (CommentData c), d1))))))"

definition posts_comment_route :: "db \<Rightarrow> request \<Rightarrow> reply \<times> db" where
  "posts_comment_route = protected_route posts_comment_handler"

subsection \<open>GET /api/posts/search\<close>

text \<open>
  The query \<^verbatim>\<open>q\<close> is handed to the store as a regular expression with the option
  \<^verbatim>\<open>i\<close>: \<^verbatim>\<open>{title: {$regex: q, $options: 'i'}}\<close>, the same for \<^verbatim>\<open>content\<close>, and
  \<^verbatim>\<open>{tags: {$in: [new RegExp(q, 'i')]}}\<close>, which holds when some tag matches. A regular
  expression matches a string when it matches somewhere in it.

  The store's regular expressions are modelled on the patterns built from ordinary
  characters and the dot: an ordinary character matches itself in either case, the dot
  matches any character that is not a line break. Letters are the ASCII letters. For every
  other pattern, and for a dot against a string with a line break in it, the answer is the
  engine's, a parameter: \<open>valid\<close> says whether a pattern compiles, \<open>test\<close> whether it
  matches.
\<close>

definition toLower :: "char \<Rightarrow> char" where
  "toLower c =
     (case map_of (zip ''ABCDEFGHIJKLMNOPQRSTUVWXYZ'' ''abcdefghijklmnopqrstuvwxyz'') c of
        None \<Rightarrow> c
      | Some l \<Rightarrow> l)"

datatype atom = AnyChar | Lit char

text \<open>The characters with a meaning of their own in a pattern, the dot apart.\<close>

definition specials :: string where
  "specials = CHR 0x5C # ''^$|?*+()[]{}''"

definition in_fragment :: "string \<Rightarrow> bool" where
  "in_fragment q = (\<not> list_ex (\<lambda>c. c \<in> set specials) q)"

definition atoms :: "string \<Rightarrow> atom list" where
  "atoms q = map (\<lambda>c. if c = CHR ''.'' then AnyChar else Lit c) q"

fun atom_match :: "atom \<Rightarrow> char \<Rightarrow> bool" where
  "atom_match AnyChar c = True"
| "atom_match (Lit x) c = (toLower x = toLower c)"

fun match_here :: "atom list \<Rightarrow> string \<Rightarrow> bool" where
  "match_here [] s = True"
| "match_here (a # ats) [] = False"
| "match_here (a # ats) (c # cs) = (atom_match a c \<and> match_here ats cs)"

fun match_anywhere :: "atom list \<Rightarrow> string \<Rightarrow> bool" where
  "match_anywhere ats [] = match_here ats []"
| "match_anywhere ats (c # cs) = (match_here ats (c # cs) \<or> match_anywhere ats cs)"

record regex_engine =
  valid :: "string \<Rightarrow> bool"
  test :: "string \<Rightarrow> string \<Rightarrow> bool"

definition has_linebreak :: "string \<Rightarrow> bool" where
  "has_linebreak s = (CHR 0x0A \<in> set s \<or> CHR 0x0D \<in> set s)"

definition regex_valid :: "regex_engine \<Rightarrow> string \<Rightarrow> bool" where
  "regex_valid eng q = (in_fragment q \<or> valid eng q)"

definition regex_test :: "regex_engine \<Rightarrow> string \<Rightarrow> string \<Rightarrow> bool" where
  "regex_test eng q s =
     (if in_fragment q \<and> \<not> (CHR ''.'' \<in> set q \<and> has_linebreak s)
      then match_anywhere (atoms q) s
      else test eng q s)"

text \<open>
  The handler: an absent or empty \<^verbatim>\<open>q\<close> answers 400; a pattern that does not compile
  throws, which the \<^verbatim>\<open>catch\<close> hands to \<^verbatim>\<open>next\<close>; otherwise the posts matching in title,
  content or a tag are answered, populated, with their count.
\<close>

definition posts_search_handler :: "regex_engine \<Rightarrow> db \<Rightarrow> request \<Rightarrow> reply" where
  "posts_search_handler eng d req =
     (let q = field (query_q req) in
      if q = [] then fail 400 ''Please provide a search query''
      else if \<not> regex_valid eng q then Inl ''SyntaxError''
      else
        (let found = filter (\<lambda>p. regex_test eng q (title p)
                                \<or> regex_test eng q (content p)
                                \<or> (\<exists>t \<in> set (tags p). regex_test eng q t)) (posts d)
         in ok 200 (PostsData (length found) (map (populate_post d) found))))"

subsection \<open>GET /api/posts/:id\<close>

text \<open>
  The handler loads the post named by the path. In the handlers above the identifier is
  taken to be one the store accepts; this route is also reached by paths that were never
  meant as identifiers, so here the store's test of the string is the parameter
  \<open>castable\<close>: a string that fails it makes \<^verbatim>\<open>findById\<close> throw, which the \<^verbatim>\<open>catch\<close> hands to
  \<^verbatim>\<open>next\<close>.
\<close>

definition posts_get_handler :: "(string \<Rightarrow> bool) \<Rightarrow> db \<Rightarrow> request \<Rightarrow> reply" where
  "posts_get_handler castable d req =
     (if \<not> castable (params_id req) then Inl ''CastError''
      else
        (case Post_findById (posts d) (params_id req) of
           None \<Rightarrow> fail 404 ''Post not found''
         | Some post \<Rightarrow> ok 200 (PostDetailData (populate_detail d post))))"

text \<open>An identifier of the store as a string: 24 hexadecimal digits.\<close>

definition object_id :: "string \<Rightarrow> bool" where
  "object_id s = (length s = 24 \<and> list_all (\<lambda>c. c \<in> set ''0123456789abcdefABCDEF'') s)"

subsection \<open>The router's GET routes\<close>

text \<open>
  The router tries its routes in the order the file registers them and hands the request
  to the first one whose path matches; a handler that answers, or that calls \<^verbatim>\<open>next(err)\<close>,
  ends the search for a route. For a path of one segment below \<^verbatim>\<open>/api/posts/\<close> the GET
  routes are \<^verbatim>\<open>'/:id'\<close> (line 35) and then \<^verbatim>\<open>'/search'\<close> (line 256); \<^verbatim>\<open>'/'\<close> (line 16) matches
  the empty path only. \<^verbatim>\<open>:id\<close> matches any segment and binds it to \<^verbatim>\<open>req.params.id\<close>. \<open>None\<close>:
  no route of this router matches.
\<close>

datatype pattern = Param | Literal string

fun pattern_matches :: "pattern \<Rightarrow> string \<Rightarrow> bool" where
  "pattern_matches Param seg = (seg \<noteq> [])"
| "pattern_matches (Literal s) seg = (seg = s)"

fun bind_params :: "pattern \<Rightarrow> string \<Rightarrow> request \<Rightarrow> request" where
  "bind_params Param seg req = req\<lparr>params_id := seg\<rparr>"
| "bind_params (Literal s) seg req = req"

fun dispatch :: "(pattern \<times> (db \<Rightarrow> request \<Rightarrow> reply)) list \<Rightarrow> db \<Rightarrow> request \<Rightarrow> string
    \<Rightarrow> reply option" where
  "dispatch [] d req seg = None"
| "dispatch ((pat, handler) # routes) d req seg =
     (if pattern_matches pat seg then Some (handler d (bind_params pat seg req))
      else dispatch routes d req seg)"

definition posts_get_routes ::
    "(string \<Rightarrow> bool) \<Rightarrow> regex_engine \<Rightarrow> (pattern \<times> (db \<Rightarrow> request \<Rightarrow> reply)) list" where
  "posts_get_routes castable eng =
     [(Param, posts_get_handler castable),
      (Literal ''search'', posts_search_handler eng)]"

definition posts_get :: "(string \<Rightarrow> bool) \<Rightarrow> regex_engine \<Rightarrow> db \<Rightarrow> request \<Rightarrow> string
    \<Rightarrow> reply option" where
  "posts_get castable eng d req seg = dispatch (posts_get_routes castable eng) d req seg"

text \<open>
  The spec's words for the search, to compare the handler with: \<open>q\<close> occurs in \<open>s\<close> as a
  case-insensitive substring. \<open>ci_occurs\<close> computes it.
\<close>

definition ci_substring :: "string \<Rightarrow> string \<Rightarrow> bool" where
  "ci_substring q s = (\<exists>pre suf. map toLower s = pre @ map toLower q @ suf)"

fun ci_prefix :: "string \<Rightarrow> string \<Rightarrow> bool" where
  "ci_prefix [] s = True"
| "ci_prefix (x # xs) [] = False"
| "ci_prefix (x # xs) (c # cs) = (toLower x = toLower c \<and> ci_prefix xs cs)"

fun ci_occurs :: "string \<Rightarrow> string \<Rightarrow> bool" where
  "ci_occurs q [] = ci_prefix q []"
| "ci_occurs q (c # cs) = (ci_prefix q (c # cs) \<or> ci_occurs q cs)"

definition spec_match :: "string \<Rightarrow> post \<Rightarrow> bool" where
  "spec_match q p =
     (ci_substring q (title p) \<or> ci_substring q (content p)
      \<or> (\<exists>t \<in> set (tags p). ci_substring q t))"

text \<open>A query without any character that a pattern gives a meaning to.\<close>

definition plain :: "string \<Rightarrow> bool" where
  "plain q = (\<not> list_ex (\<lambda>c. c \<in> set (CHR ''.'' # specials)) q)"

section \<open>Server: the category routes (routes/categories.js)\<close>

subsection \<open>DELETE /api/categories/:id\<close>

definition categories_delete_handler :: "db \<Rightarrow> request \<Rightarrow> user_doc \<Rightarrow> reply \<times> db" where
  "categories_delete_handler d req u =
     (case Category_findById (categories d) (params_id req) of
        None \<Rightarrow> (fail 404 ''Category not found'', d)
      | Some cat \<Rightarrow>
          (let found = filter (\<lambda>p. category p = params_id req) (posts d) in
           if length found > 0 then
             (fail 400 ''Cannot delete category with existing posts'', d)
           else
             (ok 200 EmptyData,
              d\<lparr>categories := Category_remove (categories d) cat\<rparr>)))"

definition categories_delete_route :: "db \<Rightarrow> request \<Rightarrow> reply \<times> db" where
  "categories_delete_route = admin_route categories_delete_handler"

section \<open>Client: the session reducer (context/AuthContext.js)\<close>

text \<open>
  The reducer's state is the object \<^verbatim>\<open>{loading, isAuthenticated, user, error}\<close>. The fields
  \<^verbatim>\<open>user\<close> and \<^verbatim>\<open>error\<close> hold whatever value the action carried, or \<^verbatim>\<open>null\<close>: the type
  \<open>'v\<close> stands for the JavaScript values a payload can be, and \<open>None\<close> for \<^verbatim>\<open>null\<close> (an
  action dispatched without a payload, as \<^verbatim>\<open>{type: 'LOGOUT'}\<close>, has \<open>payload = None\<close>).
\<close>

record 'v auth_state =
  loading :: bool
  isAuthenticated :: bool
  user :: "'v option"
  error :: "'v option"

record 'v action =
  atype :: string
  payload :: "'v option"

text \<open>The \<^verbatim>\<open>switch (action.type)\<close> of \<^verbatim>\<open>authReducer\<close>, case by case, in the source's order.\<close>

definition authReducer :: "'v auth_state \<Rightarrow> 'v action \<Rightarrow> 'v auth_state" where
  "authReducer state action =
     (if atype action = ''LOGIN_START'' then
        state\<lparr>loading := True\<rparr>
      else if atype action = ''LOGIN_SUCCESS'' then
        state\<lparr>loading := False, isAuthenticated := True, user := payload action\<rparr>
      else if atype action = ''LOGIN_FAIL'' then
        state\<lparr>loading := False, isAuthenticated := False, user := None,
               error := payload action\<rparr>
      else if atype action = ''LOGOUT'' then
        state\<lparr>loading := False, isAuthenticated := False, user := None\<rparr>
      else if atype action = ''CLEAR_ERROR'' then
        state\<lparr>error := None\<rparr>
      else state)"

text \<open>The initial state \<^verbatim>\<open>AuthProvider\<close> hands to \<^verbatim>\<open>useReducer\<close>.\<close>

definition initialState :: "'v auth_state" where
  "initialState = \<lparr>loading = False, isAuthenticated = False, user = None, error = None\<rparr>"

text \<open>Dispatching a sequence of actions, oldest first.\<close>

definition dispatch_all :: "'v auth_state \<Rightarrow> 'v action list \<Rightarrow> 'v auth_state" where
  "dispatch_all s acts = foldl authReducer s acts"

text \<open>The names of the five events the reducer knows.\<close>

definition known_types :: "string list" where
  "known_types = [''LOGIN_START'', ''LOGIN_SUCCESS'', ''LOGIN_FAIL'', ''LOGOUT'', ''CLEAR_ERROR'']"

section \<open>Example data\<close>

definition ann :: user_doc where
  "ann = \<lparr>uid = ''u1'', name = ''Ann'', email = ''ann@blog.io'', avatar = ''ann.png'',
          role = ''admin''\<rparr>"

definition bob :: user_doc where
  "bob = \<lparr>uid = ''u2'', name = ''Bob'', email = ''bob@blog.io'', avatar = ''bob.png'',
          role = ''user''\<rparr>"

definition tech :: category_doc where
  "tech = \<lparr>cid = ''c1'', cname = ''Tech'', slug = ''tech'', description = [], postCount = 2\<rparr>"

definition life :: category_doc where
  "life = \<lparr>cid = ''c2'', cname = ''Life'', slug = ''life'', description = [], postCount = 0\<rparr>"

definition post1 :: post where
  "post1 = \<lparr>pid = ''p1'', title = ''Hello abc'', content = ''First post'', tags = [''Intro''],
            category = ''c1'', author = ''u2'', viewCount = 0, comments = []\<rparr>"

definition post2 :: post where
  "post2 = \<lparr>pid = ''p2'', title = ''Orphan'', content = ''No category left'', tags = [],
            category = ''c9'', author = ''u1'', viewCount = 0, comments = []\<rparr>"

definition db0 :: db where
  "db0 = \<lparr>posts = [post1, post2], categories = [tech, life], users = [ann, bob]\<rparr>"

definition no_body :: req_body where
  "no_body = \<lparr>b_title = None, b_content = None, b_category = None, b_tags = None\<rparr>"

definition by_user :: "user_doc \<Rightarrow> oid \<Rightarrow> request" where
  "by_user u i = \<lparr>session = Some u, params_id = i, body = no_body, query_q = None\<rparr>"

definition new_post :: req_body where
  "new_post = \<lparr>b_title = Some ''A'', b_content = Some ''B'', b_category = Some ''c1'',
               b_tags = None\<rparr>"

definition create_req :: "user_doc \<Rightarrow> oid \<Rightarrow> request" where
  "create_req u c = \<lparr>session = Some u, params_id = [], body = new_post\<lparr>b_category := Some c\<rparr>,
                     query_q = None\<rparr>"

definition comment_req :: "user_doc \<Rightarrow> oid \<Rightarrow> string \<Rightarrow> request" where
  "comment_req u i txt =
     \<lparr>session = Some u, params_id = i, body = no_body\<lparr>b_content := Some txt\<rparr>, query_q = None\<rparr>"

definition search_req :: "string \<Rightarrow> request" where
  "search_req q = \<lparr>session = None, params_id = [], body = no_body, query_q = Some q\<rparr>"

text \<open>
  A store with no post and both counters at 0; the same after an admin has created a post
  in \<open>tech\<close>; and after the admin has then moved that post to \<open>life\<close> by an update.
\<close>

definition fresh :: db where
  "fresh = \<lparr>posts = [], categories = [tech\<lparr>postCount := 0\<rparr>, life], users = [ann, bob]\<rparr>"

definition move_req :: "user_doc \<Rightarrow> oid \<Rightarrow> oid \<Rightarrow> request" where
  "move_req u i c =
     \<lparr>session = Some u, params_id = i, body = no_body\<lparr>b_category := Some c\<rparr>, query_q = None\<rparr>"

definition created :: db where
  "created = snd (posts_create_route ''p3'' fresh (create_req ann ''c1''))"

definition moved :: db where
  "moved = snd (posts_update_route created (move_req ann ''p3'' ''c2''))"



text \<open>
  Eve, who is not among the stored users; \<open>post1\<close> with a comment on it, and the store that
  holds it.
\<close>

definition eve :: user_doc where
  "eve = \<lparr>uid = ''u3'', name = ''Eve'', email = ''eve@blog.io'', avatar = ''eve.png'',
          role = ''user''\<rparr>"

definition post1c :: post where
  "post1c = post1\<lparr>comments := [\<lparr>c_content = ''First'', c_user = ''u1''\<rparr>]\<rparr>"

definition db1 :: db where
  "db1 = db0\<lparr>posts := [post1c, post2]\<rparr>"

definition no_engine :: regex_engine where
  "no_engine = \<lparr>valid = (\<lambda>q. False), test = (\<lambda>q s. False)\<rparr>"

section \<open>The session reducer: transitions and invariant\<close>

lemma authReducer_start [simp]:
  "atype a = ''LOGIN_START'' \<Longrightarrow> authReducer s a = s\<lparr>loading := True\<rparr>"
  by (simp add: authReducer_def)

lemma authReducer_success [simp]:
  "atype a = ''LOGIN_SUCCESS'' \<Longrightarrow>
     authReducer s a = s\<lparr>loading := False, isAuthenticated := True, user := payload a\<rparr>"
  by (simp add: authReducer_def)

lemma authReducer_fail [simp]:
  "atype a = ''LOGIN_FAIL'' \<Longrightarrow>
     authReducer s a =
       s\<lparr>loading := False, isAuthenticated := False, user := None, error := payload a\<rparr>"
  by (simp add: authReducer_def)

lemma authReducer_logout [simp]:
  "atype a = ''LOGOUT'' \<Longrightarrow>
     authReducer s a = s\<lparr>loading := False, isAuthenticated := False, user := None\<rparr>"
  by (simp add: authReducer_def)

lemma authReducer_clear [simp]:
  "atype a = ''CLEAR_ERROR'' \<Longrightarrow> authReducer s a = s\<lparr>error := None\<rparr>"
  by (simp add: authReducer_def)

lemma authReducer_other [simp]:
  "atype a \<notin> set known_types \<Longrightarrow> authReducer s a = s"
  by (simp add: authReducer_def known_types_def)

text \<open>
  Claim C8. The reducer implements exactly the named transitions: the start event sets
  \<open>loading\<close> (and nothing else); success clears \<open>loading\<close>, sets \<open>isAuthenticated\<close> and stores
  the payload as \<open>user\<close>; failure clears \<open>loading\<close>, \<open>isAuthenticated\<close> and \<open>user\<close> and records
  the payload as \<open>error\<close>; logout clears \<open>loading\<close>, \<open>isAuthenticated\<close> and \<open>user\<close>;
  clear-error clears \<open>error\<close>; an action of any other type returns the state as it was.
  Each transition leaves the fields it does not name as they were.
\<close>

theorem authReducer_transitions:
  "authReducer s \<lparr>atype = ''LOGIN_START'', payload = x\<rparr> = s\<lparr>loading := True\<rparr>
   \<and> authReducer s \<lparr>atype = ''LOGIN_SUCCESS'', payload = x\<rparr> =
        \<lparr>loading = False, isAuthenticated = True, user = x, error = error s\<rparr>
   \<and> authReducer s \<lparr>atype = ''LOGIN_FAIL'', payload = x\<rparr> =
        \<lparr>loading = False, isAuthenticated = False, user = None, error = x\<rparr>
   \<and> authReducer s \<lparr>atype = ''LOGOUT'', payload = x\<rparr> =
        \<lparr>loading = False, isAuthenticated = False, user = None, error = error s\<rparr>
   \<and> authReducer s \<lparr>atype = ''CLEAR_ERROR'', payload = x\<rparr> = s\<lparr>error := None\<rparr>
   \<and> (t \<notin> set known_types \<longrightarrow> authReducer s \<lparr>atype = t, payload = x\<rparr> = s)"
  by (cases s) simp

theorem authReducer_transitions_witness:
  "''REFRESH'' \<notin> set known_types
   \<and> authReducer \<lparr>loading = True, isAuthenticated = True, user = Some ''ann'', error = None\<rparr>
        \<lparr>atype = ''REFRESH'', payload = Some ''bob''\<rparr>
      = \<lparr>loading = True, isAuthenticated = True, user = Some ''ann'', error = None\<rparr>
   \<and> authReducer \<lparr>loading = True, isAuthenticated = True, user = Some ''ann'', error = None\<rparr>
        \<lparr>atype = ''LOGIN_FAIL'', payload = Some ''bad password''\<rparr>
      = \<lparr>loading = False, isAuthenticated = False, user = None, error = Some ''bad password''\<rparr>"
  using authReducer_transitions
    [of "\<lparr>loading = True, isAuthenticated = True, user = Some ''ann'', error = None\<rparr>"
        "Some ''bob''" "''REFRESH''"]
    authReducer_transitions
    [of "\<lparr>loading = True, isAuthenticated = True, user = Some ''ann'', error = None\<rparr>"
        "Some ''bad password''" "''REFRESH''"]
  by (simp add: known_types_def)

lemma authReducer_keeps_invariant:
  assumes "isAuthenticated s \<longleftrightarrow> user s \<noteq> None"
    and "atype a = ''LOGIN_SUCCESS'' \<longrightarrow> payload a \<noteq> None"
  shows "isAuthenticated (authReducer s a) \<longleftrightarrow> user (authReducer s a) \<noteq> None"
  using assms by (simp add: authReducer_def)

text \<open>
  Claim C9. In every state reached from the initial state by dispatching actions whose
  \<^verbatim>\<open>LOGIN_SUCCESS\<close> payloads are not null, \<open>isAuthenticated\<close> holds exactly when \<open>user\<close> is
  not null.
\<close>

theorem authenticated_iff_user:
  assumes "\<forall>a \<in> set acts. atype a = ''LOGIN_SUCCESS'' \<longrightarrow> payload a \<noteq> None"
  shows "isAuthenticated (dispatch_all initialState acts)
         \<longleftrightarrow> user (dispatch_all initialState acts) \<noteq> None"
  using assms
proof (induction acts rule: rev_induct)
  case Nil
  show ?case by (simp add: dispatch_all_def initialState_def)
next
  case (snoc a acts)
  then have "isAuthenticated (dispatch_all initialState acts)
             \<longleftrightarrow> user (dispatch_all initialState acts) \<noteq> None"
    by simp
  moreover from snoc.prems have "atype a = ''LOGIN_SUCCESS'' \<longrightarrow> payload a \<noteq> None"
    by simp
  ultimately show ?case
    unfolding dispatch_all_def foldl_append foldl.simps
    by (rule authReducer_keeps_invariant)
qed

theorem authenticated_iff_user_witness:
  "isAuthenticated (dispatch_all initialState
      [\<lparr>atype = ''LOGIN_START'', payload = None\<rparr>,
       \<lparr>atype = ''LOGIN_SUCCESS'', payload = Some ''ann''\<rparr>,
       \<lparr>atype = ''CLEAR_ERROR'', payload = None\<rparr>])
   \<and> user (dispatch_all initialState
      [\<lparr>atype = ''LOGIN_START'', payload = None\<rparr>,
       \<lparr>atype = ''LOGIN_SUCCESS'', payload = Some ''ann''\<rparr>,
       \<lparr>atype = ''CLEAR_ERROR'', payload = None\<rparr>]) = Some ''ann''
   \<and> \<not> isAuthenticated (dispatch_all initialState
      [\<lparr>atype = ''LOGIN_SUCCESS'', payload = Some ''ann''\<rparr>,
       \<lparr>atype = ''LOGOUT'', payload = None\<rparr>])"
proof -
  let ?login = "[\<lparr>atype = ''LOGIN_START'', payload = None\<rparr>,
                 \<lparr>atype = ''LOGIN_SUCCESS'', payload = Some ''ann''\<rparr>,
                 \<lparr>atype = ''CLEAR_ERROR'', payload = None\<rparr>]"
  let ?logout = "[\<lparr>atype = ''LOGIN_SUCCESS'', payload = Some ''ann''\<rparr>,
                  \<lparr>atype = ''LOGOUT'', payload = None\<rparr>]"
  have h1: "\<forall>a \<in> set ?login. atype a = ''LOGIN_SUCCESS'' \<longrightarrow> payload a \<noteq> None"
    by simp
  have h2: "\<forall>a \<in> set ?logout. atype a = ''LOGIN_SUCCESS'' \<longrightarrow> payload a \<noteq> None"
    by simp
  have u1: "user (dispatch_all initialState ?login) = Some ''ann''"
    by (simp add: dispatch_all_def initialState_def authReducer_def)
  have u2: "user (dispatch_all initialState ?logout) = None"
    by (simp add: dispatch_all_def initialState_def authReducer_def)
  show ?thesis
    using authenticated_iff_user [OF h1] authenticated_iff_user [OF h2] u1 u2 by simp
qed

section \<open>Numbers\<close>











section \<open>The store operations\<close>

lemma find_id_Some: "find (\<lambda>x. f x = i) xs = Some y \<Longrightarrow> f y = i \<and> y \<in> set xs"
  by (induction xs) (auto split: if_splits)

lemma find_map_replace_same:
  assumes "find (\<lambda>x. f x = i) xs = Some y" and "\<And>x. f x = i \<Longrightarrow> f (g x) = i"
  shows "find (\<lambda>x. f x = i) (map (\<lambda>x. if f x = i then g x else x) xs) = Some (g y)"
  using assms by (induction xs) (auto split: if_splits)

lemma find_map_replace_other:
  assumes "k \<noteq> i" and "\<And>x. f x = i \<Longrightarrow> f (g x) = i"
  shows "find (\<lambda>x. f x = k) (map (\<lambda>x. if f x = i then g x else x) xs) = find (\<lambda>x. f x = k) xs"
  using assms by (induction xs) auto

lemma find_filter_removed: "find (\<lambda>x. f x = i) (filter (\<lambda>x. f x \<noteq> i) xs) = None"
  by (induction xs) auto

lemma find_filter_other:
  "k \<noteq> i \<Longrightarrow> find (\<lambda>x. f x = k) (filter (\<lambda>x. f x \<noteq> i) xs) = find (\<lambda>x. f x = k) xs"
  by (induction xs) auto

lemma Category_findById_cid: "Category_findById cs i = Some c \<Longrightarrow> cid c = i"
  unfolding Category_findById_def by (drule find_id_Some) simp

lemma Post_findById_pid: "Post_findById ps i = Some p \<Longrightarrow> pid p = i"
  unfolding Post_findById_def by (drule find_id_Some) simp



lemma Post_save_same:
  "Post_findById ps (pid p') = Some p \<Longrightarrow> Post_findById (Post_save ps p') (pid p') = Some p'"
  unfolding Post_findById_def Post_save_def
  using find_map_replace_same [of pid "pid p'" ps p "\<lambda>_. p'"] by simp

lemma Post_save_other:
  "k \<noteq> pid p' \<Longrightarrow> Post_findById (Post_save ps p') k = Post_findById ps k"
  unfolding Post_findById_def Post_save_def
  using find_map_replace_other [of k "pid p'" pid "\<lambda>_. p'" ps] by simp

lemma Post_remove_same: "Post_findById (Post_remove ps p) (pid p) = None"
  unfolding Post_findById_def Post_remove_def by (rule find_filter_removed)

lemma Post_remove_other:
  "k \<noteq> pid p \<Longrightarrow> Post_findById (Post_remove ps p) k = Post_findById ps k"
  unfolding Post_findById_def Post_remove_def by (rule find_filter_other)

lemma Category_remove_same: "Category_findById (Category_remove cs c) (cid c) = None"
  unfolding Category_findById_def Category_remove_def by (rule find_filter_removed)

lemma pid_apply_body [simp]: "pid (apply_body b p) = pid p"
  by (simp add: apply_body_def)

lemma Post_update_same:
  "Post_findById ps i = Some p \<Longrightarrow>
     Post_findByIdAndUpdate ps i b = (Some (apply_body b p), map (\<lambda>x. if pid x = i then apply_body b x else x) ps)"
  unfolding Post_findById_def Post_findByIdAndUpdate_def Let_def
  using find_map_replace_same [of pid i ps p "apply_body b"] by simp

lemma Post_update_other:
  "k \<noteq> i \<Longrightarrow> Post_findById (snd (Post_findByIdAndUpdate ps i b)) k = Post_findById ps k"
  unfolding Post_findById_def Post_findByIdAndUpdate_def Let_def
  using find_map_replace_other [of k i pid "apply_body b" ps] by simp

section \<open>The authorization gate\<close>

lemma admin_route_cases:
  "admin_route h d req =
     (if is_admin req then h d req (the (session req))
      else (fail 401 (if session req = None then ''Unauthenticated'' else ''Forbidden''), d))"
  by (auto simp: admin_route_def protect_def authorize_def is_admin_def split: option.splits)

lemma protected_route_cases:
  "protected_route h d req =
     (case session req of None \<Rightarrow> (fail 401 ''Unauthenticated'', d) | Some u \<Rightarrow> h d req u)"
  by (simp add: protected_route_def protect_def split: option.splits)

section \<open>Updating and deleting a post\<close>

text \<open>
  What the two handlers do with a stored post once a caller has reached them: the
  ownership check lets the author and every admin through and answers 401 to anyone else.
\<close>

lemma posts_update_handler_ownership:
  assumes "Post_findById (posts d) (params_id req) = Some p"
  shows "posts_update_handler d req u =
           (if author p = uid u \<or> role u = ''admin''
            then (ok 200 (PostData (apply_body (body req) p)),
                  d\<lparr>posts := snd (Post_findByIdAndUpdate (posts d) (params_id req) (body req))\<rparr>)
            else (fail 401 ''Not authorized to update this post'', d))"
  using assms Post_update_same [OF assms, of "body req"]
  by (auto simp: posts_update_handler_def)

lemma posts_delete_handler_ownership:
  assumes "Post_findById (posts d) (params_id req) = Some p"
  shows "posts_delete_handler d req u =
           (if author p = uid u \<or> role u = ''admin''
            then (ok 200 EmptyData,
                  d\<lparr>posts := Post_remove (posts d) p,
                    categories :=
                      (case Category_findById (categories d) (category p) of
                         None \<Rightarrow> categories d
                       | Some c \<Rightarrow>
                           Category_save (categories d)
                             (c\<lparr>postCount := (if js_sub (postCount c) 1 < 0 then 0
                                                else js_sub (postCount c) 1)\<rparr>))\<rparr>)
            else (fail 401 ''Not authorized to delete this post'', d))"
  using assms
  by (cases d) (auto simp: posts_delete_handler_def Let_def split: option.splits)

text \<open>
  At the routes the handlers' own 401 never answers: both routes are registered behind
  \<^verbatim>\<open>[protect, authorize('admin')]\<close>, so whoever reaches the ownership check is an admin and
  passes it.
\<close>

lemma ownership_check_never_answers:
  "fst (posts_update_route d req) \<noteq> fail 401 ''Not authorized to update this post''"
  "fst (posts_delete_route d req) \<noteq> fail 401 ''Not authorized to delete this post''"
  by (auto simp: posts_update_route_def posts_delete_route_def admin_route_cases
      posts_update_handler_def posts_delete_handler_def is_admin_def fail_def ok_def Let_def
      split: option.splits prod.splits)

text \<open>
  Claim C1. The claim is what the ownership check of the two handlers says, in its comment
  and in its test: the post's author and every admin pass, anyone else is answered 401.
  The routes do not keep it for the author. Bob is the author of \<open>post1\<close> and his role is
  \<^verbatim>\<open>user\<close>: the handlers, called with Bob, pass the ownership check and answer 200; the
  routes answer him 401 at \<^verbatim>\<open>authorize('admin')\<close> and leave the store as it was.
\<close>

theorem non_admin_author_rejected:
  "author post1 = uid bob \<and> role bob = ''user''
   \<and> Post_findById (posts db0) ''p1'' = Some post1
   \<and> fst (posts_update_handler db0 (by_user bob ''p1'') bob) = ok 200 (PostData post1)
   \<and> fst (posts_delete_handler db0 (by_user bob ''p1'') bob) = ok 200 EmptyData
   \<and> posts_update_route db0 (by_user bob ''p1'') = (fail 401 ''Forbidden'', db0)
   \<and> posts_delete_route db0 (by_user bob ''p1'') = (fail 401 ''Forbidden'', db0)"
  by code_simp

section \<open>Creating a post\<close>








section \<open>Deleting a post\<close>




text \<open>
  Claim C10. An admin's request to delete a stored post whose category is not stored
  still succeeds: the answer is 200 with success, the post is no longer stored, and the
  categories (and users) are exactly as they were.
\<close>

theorem delete_with_missing_category:
  assumes "is_admin req"
    and "Post_findById (posts d) (params_id req) = Some p"
    and "Category_findById (categories d) (category p) = None"
  shows "\<exists>d'. posts_delete_route d req = (ok 200 EmptyData, d')
           \<and> Post_findById (posts d') (params_id req) = None
           \<and> categories d' = categories d \<and> users d' = users d"
proof -
  from assms(1) have "role (the (session req)) = ''admin''"
    by (auto simp: is_admin_def split: option.splits)
  with assms have run: "posts_delete_route d req =
      (ok 200 EmptyData, d\<lparr>posts := Post_remove (posts d) p, categories := categories d\<rparr>)"
    by (simp add: posts_delete_route_def admin_route_cases
        posts_delete_handler_ownership [OF assms(2)])
  have "Post_findById (Post_remove (posts d) p) (params_id req) = None"
    using Post_remove_same [of "posts d" p] Post_findById_pid [OF assms(2)] by simp
  with run show ?thesis by simp
qed

theorem delete_with_missing_category_witness:
  "is_admin (by_user ann ''p2'')
   \<and> Category_findById (categories db0) (category post2) = None
   \<and> posts_delete_route db0 (by_user ann ''p2'') = (ok 200 EmptyData, db0\<lparr>posts := [post1]\<rparr>)"
proof -
  have a: "is_admin (by_user ann ''p2'')"
    by (simp add: is_admin_def by_user_def ann_def)
  have p: "Post_findById (posts db0) (params_id (by_user ann ''p2'')) = Some post2"
    by (simp add: Post_findById_def db0_def by_user_def post1_def post2_def)
  have c: "Category_findById (categories db0) (category post2) = None"
    by (simp add: Category_findById_def db0_def tech_def life_def post2_def)
  have run: "snd (posts_delete_route db0 (by_user ann ''p2'')) = db0\<lparr>posts := [post1]\<rparr>"
    by (simp add: posts_delete_route_def admin_route_def protect_def authorize_def
        posts_delete_handler_def by_user_def ann_def db0_def post1_def post2_def tech_def
        life_def Post_findById_def Post_remove_def Category_findById_def Let_def)
  show ?thesis
    using delete_with_missing_category [OF a p c] a c run by auto
qed

section \<open>Deleting a category\<close>

lemma categories_delete_handler_cases:
  assumes "Category_findById (categories d) (params_id req) = Some c"
  shows "categories_delete_handler d req u =
           (if \<exists>p \<in> set (posts d). category p = params_id req
            then (fail 400 ''Cannot delete category with existing posts'', d)
            else (ok 200 EmptyData, d\<lparr>categories := Category_remove (categories d) c\<rparr>))"
  using assms
  by (auto simp: categories_delete_handler_def Let_def filter_empty_conv)

text \<open>
  Claim C4, as the handler has it. For an admin's request to delete a stored category:
  when some stored post references it, the answer is 400 and the store is unchanged, so the
  category remains; when no stored post references it, the answer is 200 and the category
  is no longer stored, whatever its \<^verbatim>\<open>postCount\<close>.
\<close>

theorem category_delete_blocked_by_posts:
  assumes "is_admin req"
    and "Category_findById (categories d) (params_id req) = Some c"
  shows "if \<exists>p \<in> set (posts d). category p = params_id req
         then categories_delete_route d req =
                (fail 400 ''Cannot delete category with existing posts'', d)
         else \<exists>d'. categories_delete_route d req = (ok 200 EmptyData, d')
                \<and> Category_findById (categories d') (params_id req) = None
                \<and> posts d' = posts d"
proof -
  have "Category_findById (Category_remove (categories d) c) (params_id req) = None"
    using Category_remove_same [of "categories d" c] Category_findById_cid [OF assms(2)]
    by simp
  then show ?thesis
    using assms(1)
    by (simp add: categories_delete_route_def admin_route_cases
        categories_delete_handler_cases [OF assms(2)])
qed

theorem category_delete_blocked_by_posts_witness:
  "is_admin (by_user ann ''c1'') \<and> is_admin (by_user ann ''c2'')
   \<and> categories_delete_route db0 (by_user ann ''c1'') =
       (fail 400 ''Cannot delete category with existing posts'', db0)
   \<and> Category_findById (categories (snd (categories_delete_route db0 (by_user ann ''c2'')))) ''c2''
       = None"
proof -
  have a: "is_admin (by_user ann ''c1'')" "is_admin (by_user ann ''c2'')"
    by (simp_all add: is_admin_def by_user_def ann_def)
  have c1: "Category_findById (categories db0) (params_id (by_user ann ''c1'')) = Some tech"
    by (simp add: Category_findById_def db0_def tech_def by_user_def)
  have c2: "Category_findById (categories db0) (params_id (by_user ann ''c2'')) = Some life"
    by (simp add: Category_findById_def db0_def tech_def life_def by_user_def)
  have p1: "\<exists>p \<in> set (posts db0). category p = params_id (by_user ann ''c1'')"
    by (simp add: db0_def post1_def by_user_def)
  have p2: "\<not> (\<exists>p \<in> set (posts db0). category p = params_id (by_user ann ''c2''))"
    by (simp add: db0_def post1_def post2_def by_user_def)
  have i: "params_id (by_user ann ''c2'') = ''c2''"
    by (simp add: by_user_def)
  show ?thesis
    using category_delete_blocked_by_posts [OF a(1) c1]
      category_delete_blocked_by_posts [OF a(2) c2] a p1 p2 i
    by auto
qed

text \<open>
  The claim as first stated also blocks the deletion of a category whose \<^verbatim>\<open>postCount\<close>
  is positive. The handler never reads \<^verbatim>\<open>postCount\<close>, and an update that moves a post to
  another category adjusts no counter: after the post created in \<open>tech\<close> has been moved
  to \<open>life\<close>, \<open>tech\<close> has \<^verbatim>\<open>postCount = 1\<close>, no post references it, and it is deleted.
\<close>

theorem counted_category_deleted:
  "Category_findById (categories moved) ''c1'' = Some (tech\<lparr>postCount := 1\<rparr>)
   \<and> map category (posts moved) = [''c2'']
   \<and> categories_delete_route moved (by_user ann ''c1'') =
       (ok 200 EmptyData, moved\<lparr>categories := [life]\<rparr>)"
  by code_simp

section \<open>Adding a comment\<close>

lemma last_element_snoc [simp]: "last_element (xs @ [x]) = Some x"
  by (simp add: last_element_def)

lemma User_findById_uid: "User_findById us i = Some v \<Longrightarrow> uid v = i"
  unfolding User_findById_def by (drule find_id_Some) simp

text \<open>
  Claim C5, as the handler has it. For a request by an authenticated caller with non-empty
  content on a stored post: the post's comments afterwards are the old ones, unchanged,
  followed by exactly one new comment with the content and the caller's id as \<^verbatim>\<open>user\<close>;
  every other post, the categories and the users are as they were; the answer is 201 with
  the new comment, whose \<^verbatim>\<open>user\<close> is populated with the name and avatar of the stored user
  that has the caller's id, and is \<^verbatim>\<open>null\<close> when no user with that id is stored.
\<close>

theorem add_comment_appends:
  assumes "session req = Some u"
    and "Post_findById (posts d) (params_id req) = Some p"
    and "b_content (body req) = Some txt" and "txt \<noteq> []"
  shows "\<exists>d'. posts_comment_route d req =
             (ok 201 (CommentData
                \<lparr>pc_content = txt,
                 pc_user = (case User_findById (users d) (uid u) of
                              None \<Rightarrow> None
                            | Some v \<Rightarrow> Some (uid u, name v, avatar v))\<rparr>), d')
           \<and> Post_findById (posts d') (params_id req)
               = Some (p\<lparr>comments := comments p @ [\<lparr>c_content = txt, c_user = uid u\<rparr>]\<rparr>)
           \<and> (\<forall>k. k \<noteq> params_id req \<longrightarrow> Post_findById (posts d') k = Post_findById (posts d) k)
           \<and> categories d' = categories d \<and> users d' = users d"
proof -
  let ?c = "\<lparr>c_content = txt, c_user = uid u\<rparr>"
  let ?p = "p\<lparr>comments := comments p @ [?c]\<rparr>"
  let ?d = "d\<lparr>posts := Post_save (posts d) ?p\<rparr>"
  let ?who = "case User_findById (users d) (uid u) of
                None \<Rightarrow> None | Some v \<Rightarrow> Some (uid u, name v, avatar v)"
  have pid: "pid ?p = params_id req"
    using Post_findById_pid [OF assms(2)] by simp
  have v: "validate_comment (body req) = []"
    using assms(3,4) by (simp add: validate_comment_def check_def notEmpty_def field_def)
  have saved: "Post_findById (Post_save (posts d) ?p) (params_id req) = Some ?p"
    using Post_save_same [of "posts d" ?p p] assms(2) pid by simp
  have other: "\<forall>k. k \<noteq> params_id req \<longrightarrow>
      Post_findById (Post_save (posts d) ?p) k = Post_findById (posts d) k"
    using Post_save_other [of _ ?p "posts d"] pid by simp
  have pop: "populate_comment (users d) ?c = \<lparr>pc_content = txt, pc_user = ?who\<rparr>"
    by (auto simp: populate_comment_def populate_user_def split: option.splits
        dest: User_findById_uid)
  have run: "posts_comment_route d req =
      (ok 201 (CommentData \<lparr>pc_content = txt, pc_user = ?who\<rparr>), ?d)"
    using assms(1,2,3) v saved pid pop
    by (simp add: posts_comment_route_def protected_route_cases posts_comment_handler_def
        Let_def field_def)
  show ?thesis
    using run saved other by simp
qed

theorem add_comment_appends_witness:
  "comments post1c = [\<lparr>c_content = ''First'', c_user = ''u1''\<rparr>]
   \<and> posts_comment_route db1 (comment_req bob ''p1'' ''Nice'') =
     (ok 201 (CommentData \<lparr>pc_content = ''Nice'', pc_user = Some (''u2'', ''Bob'', ''bob.png'')\<rparr>),
      db1\<lparr>posts := [post1c\<lparr>comments := [\<lparr>c_content = ''First'', c_user = ''u1''\<rparr>,
                                           \<lparr>c_content = ''Nice'', c_user = ''u2''\<rparr>]\<rparr>, post2]\<rparr>)"
proof -
  have s: "session (comment_req bob ''p1'' ''Nice'') = Some bob"
    by (simp add: comment_req_def)
  have p: "Post_findById (posts db1) (params_id (comment_req bob ''p1'' ''Nice'')) = Some post1c"
    by (simp add: Post_findById_def db1_def db0_def comment_req_def post1c_def post1_def)
  have b: "b_content (body (comment_req bob ''p1'' ''Nice'')) = Some ''Nice''"
    by (simp add: comment_req_def)
  have ne: "''Nice'' \<noteq> []" by simp
  have u: "User_findById (users db1) (uid bob) = Some bob"
    by (simp add: User_findById_def db1_def db0_def ann_def bob_def)
  have c: "comments post1c = [\<lparr>c_content = ''First'', c_user = ''u1''\<rparr>]"
    by (simp add: post1c_def)
  have d': "snd (posts_comment_route db1 (comment_req bob ''p1'' ''Nice'')) =
      db1\<lparr>posts := [post1c\<lparr>comments := [\<lparr>c_content = ''First'', c_user = ''u1''\<rparr>,
                                           \<lparr>c_content = ''Nice'', c_user = ''u2''\<rparr>]\<rparr>, post2]\<rparr>"
    by code_simp
  show ?thesis
    using add_comment_appends [OF s p b ne] u c d' by (auto simp: bob_def)
qed

text \<open>
  The claim as first stated has every answer populated with the commenting user's name
  and avatar. Eve presents a valid identity and no user with her id is stored: her comment
  is appended and the answer is 201 with \<^verbatim>\<open>user\<close> \<^verbatim>\<open>null\<close>.
\<close>

theorem comment_by_unstored_user:
  "User_findById (users db1) (uid eve) = None
   \<and> posts_comment_route db1 (comment_req eve ''p1'' ''Nice'') =
     (ok 201 (CommentData \<lparr>pc_content = ''Nice'', pc_user = None\<rparr>),
      db1\<lparr>posts := [post1c\<lparr>comments := [\<lparr>c_content = ''First'', c_user = ''u1''\<rparr>,
                                           \<lparr>c_content = ''Nice'', c_user = ''u3''\<rparr>]\<rparr>, post2]\<rparr>)"
  by code_simp

section \<open>Searching posts\<close>

text \<open>
  On a query of ordinary characters the handler's regular expression is the
  case-insensitive substring test of the spec.
\<close>

lemma ci_prefix_iff: "ci_prefix q s \<longleftrightarrow> (\<exists>suf. map toLower s = map toLower q @ suf)"
proof (induction q s rule: ci_prefix.induct)
  case (1 s)
  show ?case by simp
next
  case (2 x xs)
  show ?case by simp
next
  case (3 x xs c cs)
  then show ?case by auto
qed

lemma ci_occurs_iff: "ci_occurs q s \<longleftrightarrow> ci_substring q s"
proof (induction s)
  case Nil
  show ?case by (cases q) (simp_all add: ci_substring_def)
next
  case (Cons c cs)
  have "ci_substring q (c # cs) \<longleftrightarrow> ci_prefix q (c # cs) \<or> ci_substring q cs"
  proof
    assume "ci_substring q (c # cs)"
    then obtain pre suf where e: "toLower c # map toLower cs = pre @ map toLower q @ suf"
      by (auto simp: ci_substring_def)
    show "ci_prefix q (c # cs) \<or> ci_substring q cs"
    proof (cases pre)
      case Nil
      with e have "map toLower (c # cs) = map toLower q @ suf" by simp
      then show ?thesis unfolding ci_prefix_iff by blast
    next
      case (Cons y ys)
      with e have "map toLower cs = ys @ map toLower q @ suf" by simp
      then show ?thesis unfolding ci_substring_def by blast
    qed
  next
    assume "ci_prefix q (c # cs) \<or> ci_substring q cs"
    then show "ci_substring q (c # cs)"
    proof
      assume "ci_prefix q (c # cs)"
      then obtain suf where "map toLower (c # cs) = [] @ map toLower q @ suf"
        unfolding ci_prefix_iff by auto
      then show ?thesis unfolding ci_substring_def by blast
    next
      assume "ci_substring q cs"
      then obtain pre suf where "map toLower cs = pre @ map toLower q @ suf"
        unfolding ci_substring_def by blast
      then have "map toLower (c # cs) = (toLower c # pre) @ map toLower q @ suf"
        by simp
      then show ?thesis unfolding ci_substring_def by blast
    qed
  qed
  with Cons show ?case by simp
qed

lemma match_here_literal: "match_here (map Lit q) s = ci_prefix q s"
  by (induction q s rule: ci_prefix.induct) simp_all

lemma match_anywhere_literal: "match_anywhere (map Lit q) s = ci_occurs q s"
  by (induction s) (simp_all add: match_here_literal)

lemma plain_fragment: "plain q \<Longrightarrow> in_fragment q \<and> CHR ''.'' \<notin> set q \<and> atoms q = map Lit q"
  by (induction q) (auto simp: plain_def in_fragment_def atoms_def)

lemma regex_test_plain: "plain q \<Longrightarrow> regex_test eng q s = ci_substring q s"
  using plain_fragment [of q]
  by (simp add: regex_test_def match_anywhere_literal ci_occurs_iff)

lemma regex_valid_plain: "plain q \<Longrightarrow> regex_valid eng q"
  using plain_fragment [of q] by (simp add: regex_valid_def)

lemma spec_match_code:
  "spec_match q p = (ci_occurs q (title p) \<or> ci_occurs q (content p)
                      \<or> (\<exists>t \<in> set (tags p). ci_occurs q t))"
  by (simp add: spec_match_def ci_occurs_iff)

text \<open>
  The handler on its own: for a non-empty query made of ordinary characters it answers
  exactly the stored posts in which the query occurs as a case-insensitive substring of
  the title, of the content or of a tag; and it reads a query as a regular expression, so
  that the query \<^verbatim>\<open>.\<close> has it answer \<open>post2\<close>, in which no dot occurs.
\<close>

lemma posts_search_handler_plain:
  assumes "query_q req = Some q" and "q \<noteq> []" and "plain q"
  shows "posts_search_handler eng d req =
           ok 200 (PostsData (length (filter (spec_match q) (posts d)))
                             (map (populate_post d) (filter (spec_match q) (posts d))))"
proof -
  have "(\<lambda>p. regex_test eng q (title p) \<or> regex_test eng q (content p)
              \<or> (\<exists>t \<in> set (tags p). regex_test eng q t)) = spec_match q"
    using assms(3) by (simp add: regex_test_plain spec_match_def fun_eq_iff)
  then show ?thesis
    using assms by (simp add: posts_search_handler_def field_def regex_valid_plain Let_def)
qed

lemma posts_search_handler_dot:
  "\<not> spec_match ''.'' post2
   \<and> posts_search_handler no_engine db0 (search_req ''.'') =
       ok 200 (PostsData 2 [populate_post db0 post1, populate_post db0 post2])"
  unfolding spec_match_code by code_simp

lemma posts_get_search:
  "posts_get castable eng d req ''search'' =
     Some (posts_get_handler castable d (req\<lparr>params_id := ''search''\<rparr>))"
  by (simp add: posts_get_def posts_get_routes_def)

text \<open>
  Claim C6. The claim is what the search route is written to do. A request for
  \<^verbatim>\<open>GET /api/posts/search?q=Intro\<close> does not get there: \<^verbatim>\<open>'/:id'\<close> is registered first and
  matches the path with \<^verbatim>\<open>id = 'search'\<close>, whatever the store and the query. With \<open>post1\<close>
  stored, whose tag is \<^verbatim>\<open>Intro\<close>, the search handler called with the request would answer
  \<open>post1\<close>; the router answers with the failed cast of \<^verbatim>\<open>'search'\<close> to an identifier, and
  would answer 404 if the store took the string for one. No search returns a post.
\<close>

theorem search_route_shadowed:
  "posts_get castable eng d req ''search''
     = Some (posts_get_handler castable d (req\<lparr>params_id := ''search''\<rparr>))
   \<and> posts_get castable eng d req ''search'' \<noteq> Some (posts_search_handler eng' d' req')
   \<and> spec_match ''Intro'' post1
   \<and> posts_search_handler no_engine db0 (search_req ''Intro'')
       = ok 200 (PostsData 1 [populate_post db0 post1])
   \<and> posts_get object_id no_engine db0 (search_req ''Intro'') ''search'' = Some (Inl ''CastError'')
   \<and> posts_get (\<lambda>s. True) no_engine db0 (search_req ''Intro'') ''search''
       = Some (fail 404 ''Post not found'')"
proof -
  have never: "posts_get_handler castable d (req\<lparr>params_id := ''search''\<rparr>)
      \<noteq> posts_search_handler eng' d' req'"
    by (auto simp: posts_get_handler_def posts_search_handler_def fail_def ok_def Let_def
        split: option.splits)
  have m: "spec_match ''Intro'' post1"
    unfolding spec_match_code by code_simp
  have h: "posts_search_handler no_engine db0 (search_req ''Intro'')
      = ok 200 (PostsData 1 [populate_post db0 post1])"
    by code_simp
  have c: "posts_get object_id no_engine db0 (search_req ''Intro'') ''search''
      = Some (Inl ''CastError'')"
    by code_simp
  have n: "posts_get (\<lambda>s. True) no_engine db0 (search_req ''Intro'') ''search''
      = Some (fail 404 ''Post not found'')"
    by code_simp
  from never m h c n show ?thesis
    by (simp add: posts_get_search)
qed

end
